theory Spec2Isabelle
  imports Main "HOL-Library.AList"
begin

section \<open>Shared data model\<close>

text \<open>
  A Python dictionary with string values (an event payload, a stored item) is an
  association list; \<open>d.get(k)\<close> is \<open>dict_get d k\<close> and \<open>not d\<close> is \<open>d = []\<close>.
  Python truthiness of an optional string: \<open>None\<close> and the empty string are false.
\<close>

type_synonym pydict = "(string \<times> string) list"

definition dict_get :: "pydict \<Rightarrow> string \<Rightarrow> string option" where
  "dict_get d k = map_of d k"

definition truthy :: "string option \<Rightarrow> bool" where
  "truthy v = (case v of None \<Rightarrow> False | Some s \<Rightarrow> s \<noteq> [])"

text \<open>Python's \<open>all([...])\<close> over optional strings.\<close>

definition all_truthy :: "string option list \<Rightarrow> bool" where
  "all_truthy vs = list_all truthy vs"

text \<open>
  Every exception the modelled code can meet is a value. \<open>ConditionalCheckFailed\<close> is
  the store's answer to a conditional write whose condition does not hold;
  \<open>StoreFailure\<close>, \<open>PublishFailure\<close>, \<open>RegistryFailure\<close> and \<open>QueueFailure\<close> stand for any
  other exception of the table, the notification topic, the rule registry and the queue;
  \<open>ResourceNotFound\<close> is the registry's answer for a rule that does not exist.
\<close>

datatype error =
    ConditionalCheckFailed
  | StoreFailure
  | PublishFailure
  | RegistryFailure
  | ResourceNotFound
  | QueueFailure
  | KeyError string
  | AttributeError
  | ValueError
  | JSONDecodeError
  | Exception string

type_synonym response = "nat \<times> string"

section \<open>The task table and the notification topic\<close>

text \<open>
  The table maps the composite key \<open>(PK, SK)\<close> to the stored item. The two writes the
  expiry code issues are
  \<^item> \<open>update_item\<close> with \<open>SET #s = :expired, GSI1PK = :expired\<close> and the condition
    \<open>Attr('status').eq('Pending')\<close>, which fails on a missing item and on an item whose
    \<open>status\<close> is absent or different, and returns the new item (\<open>ALL_NEW\<close>);
  \<^item> the same \<open>SET\<close> without a condition, which creates the item when it is missing.
\<close>

type_synonym key = "string \<times> string"

type_synonym table = "key \<rightharpoonup> pydict"

record notification =
  subject :: string
  message :: string

record world =
  table :: table
  published :: "notification list"

text \<open>
  What the surroundings decide in one invocation: whether the table and the topic
  answer, the topic name of the process environment (read by the stream processor
  only), and the library's date rendering \<open>fromisoformat\<close> followed by
  \<open>strftime('%B %d, %Y at %I:%M %p')\<close>, which is \<open>None\<close> where parsing raises.
  The table is shared with the update and delete endpoints: \<open>other_writers\<close> is what
  they write between two requests of one invocation to the table (the identity when
  nobody else writes). It matters only to code that sends more than one request.
\<close>

record env =
  store_down :: bool
  sns_down :: bool
  sns_topic_arn :: "string option"
  strftime_email :: "string \<Rightarrow> string option"
  other_writers :: "table \<Rightarrow> table"

definition set_expired :: "pydict \<Rightarrow> pydict" where
  "set_expired it = AList.update ''GSI1PK'' ''Expired'' (AList.update ''status'' ''Expired'' it)"

definition get_item :: "env \<Rightarrow> table \<Rightarrow> key \<Rightarrow> error + pydict option" where
  "get_item e t k = (if store_down e then Inl StoreFailure else Inr (t k))"

definition update_item_if_pending :: "env \<Rightarrow> table \<Rightarrow> key \<Rightarrow> error + (pydict \<times> table)" where
  "update_item_if_pending e t k =
     (if store_down e then Inl StoreFailure
      else case t k of
             None \<Rightarrow> Inl ConditionalCheckFailed
           | Some it \<Rightarrow>
               if dict_get it ''status'' = Some ''Pending''
               then Inr (set_expired it, t(k \<mapsto> set_expired it))
               else Inl ConditionalCheckFailed)"

definition update_item :: "env \<Rightarrow> table \<Rightarrow> key \<Rightarrow> error + table" where
  "update_item e t k =
     (if store_down e then Inl StoreFailure
      else Inr (t(k \<mapsto> set_expired
                  (case t k of None \<Rightarrow> [(''PK'', fst k), (''SK'', snd k)] | Some it \<Rightarrow> it))))"

definition publish :: "env \<Rightarrow> notification \<Rightarrow> world \<Rightarrow> error + world" where
  "publish e n w =
     (if sns_down e then Inl PublishFailure
      else Inr (w\<lparr>published := published w @ [n]\<rparr>))"

section \<open>The notification text\<close>

definition replace_Z :: "string \<Rightarrow> string" where
  "replace_Z s = concat (map (\<lambda>c. if c = CHR ''Z'' then ''+00:00'' else [c]) s)"

definition format_date_for_email :: "env \<Rightarrow> string \<Rightarrow> string" where
  "format_date_for_email e iso_date_string =
     (case strftime_email e (replace_Z iso_date_string) of
        Some r \<Rightarrow> r
      | None \<Rightarrow> iso_date_string)"

definition dict_get_default :: "pydict \<Rightarrow> string \<Rightarrow> string \<Rightarrow> string" where
  "dict_get_default d k dflt = (case dict_get d k of None \<Rightarrow> dflt | Some v \<Rightarrow> v)"

definition expiry_message :: "string \<Rightarrow> string \<Rightarrow> string \<Rightarrow> string" where
  "expiry_message description task_id formatted_deadline =
     ''ALERT: Your To-Do Task has Expired!'' @ [CHR 0x0A, CHR 0x0A] @
     ''Task: '' @ description @ [CHR 0x0A] @
     ''Task ID: '' @ task_id @ [CHR 0x0A] @
     ''Deadline: '' @ formatted_deadline @ [CHR 0x0A, CHR 0x0A] @
     ''This task was due and has been automatically marked as expired. '' @
     ''Please log in to the Todo App to review your tasks.''"

section \<open>The expiry executor: \<open>expiry_handler.handler\<close>\<close>

text \<open>
  The result is the returned response or the exception that leaves the handler, together
  with the world the invocation leaves behind.
\<close>

definition expiry_handler :: "env \<Rightarrow> pydict \<Rightarrow> world \<Rightarrow> (error + response) \<times> world" where
  "expiry_handler e event w =
     (let task_id = dict_get event ''taskId'';
          user_id = dict_get event ''userId'';
          pk = dict_get event ''pk'';
          sk = dict_get event ''sk''
      in if \<not> all_truthy [task_id, user_id, pk, sk]
         then (Inr (400, ''Missing task data''), w)
         else
           case update_item_if_pending e (table w) (the pk, the sk) of
             Inl ConditionalCheckFailed \<Rightarrow> (Inr (200, ''Expiry process completed.''), w)
           | Inl err \<Rightarrow> (Inl err, w)
           | Inr (task_details, t') \<Rightarrow>
               let w' = w\<lparr>table := t'\<rparr>;
                   formatted_deadline =
                     format_date_for_email e (dict_get_default task_details ''deadline'' '''');
                   description = dict_get_default task_details ''description'' ''Untitled Task'';
                   n = \<lparr>subject = ''Task Expired: '' @ description,
                        message = expiry_message description (the task_id) formatted_deadline\<rparr>
               in (case publish e n w' of
                     Inl err \<Rightarrow> (Inl err, w')
                   | Inr w'' \<Rightarrow> (Inr (200, ''Expiry process completed.''), w'')))"

text \<open>The status stored under a key; \<open>None\<close> for a missing item or an item without one.\<close>

definition stored_status :: "table \<Rightarrow> key \<Rightarrow> string option" where
  "stored_status t k = (case t k of None \<Rightarrow> None | Some it \<Rightarrow> dict_get it ''status'')"

definition payload_key :: "pydict \<Rightarrow> key" where
  "payload_key event = (the (dict_get event ''pk''), the (dict_get event ''sk''))"

definition valid_payload :: "pydict \<Rightarrow> bool" where
  "valid_payload event =
     all_truthy [dict_get event ''taskId'', dict_get event ''userId'',
                 dict_get event ''pk'', dict_get event ''sk'']"

section \<open>The expiry path of the stream processor: \<open>process_stream.expire_and_notify_task\<close>\<close>

text \<open>
  The function reads the item, returns when it is missing or not Pending, writes the
  \<open>SET\<close> without a condition, and publishes. The read and the write are two requests,
  so the write meets the table as the other writers have left it since the read.
  Every exception is caught by its blanket
  handler and printed, so the function always returns; the body below keeps the exception
  that ended it, and \<open>expire_and_notify_task\<close> drops it as the handler does. In the
  "not found" branch the \<open>print\<close> evaluates \<open>task.get\<close>, which raises on \<open>None\<close>; the
  subject of the notification reads \<open>task['description']\<close>, which raises when the item
  has no description, after the write.
\<close>

definition dict_index :: "pydict \<Rightarrow> string \<Rightarrow> error + string" where
  "dict_index d k = (case dict_get d k of None \<Rightarrow> Inl (KeyError k) | Some v \<Rightarrow> Inr v)"

definition expire_and_notify_task_body ::
  "env \<Rightarrow> string \<Rightarrow> string \<Rightarrow> string \<Rightarrow> string \<Rightarrow> world \<Rightarrow> error option \<times> world" where
  "expire_and_notify_task_body e task_id user_id pk sk w =
     (case get_item e (table w) (pk, sk) of
        Inl err \<Rightarrow> (Some err, w)
      | Inr None \<Rightarrow> (Some AttributeError, w)
      | Inr (Some task) \<Rightarrow>
          if task = [] then (None, w)
          else (case dict_index task ''status'' of
                  Inl err \<Rightarrow> (Some err, w)
                | Inr st \<Rightarrow>
                    if st \<noteq> ''Pending'' then (None, w)
                    else (case update_item e (other_writers e (table w)) (pk, sk) of
                            Inl err \<Rightarrow> (Some err, w)
                          | Inr t' \<Rightarrow>
                              let w' = w\<lparr>table := t'\<rparr> in
                              (case sns_topic_arn e of
                                 None \<Rightarrow> (Some (KeyError ''SNS_TOPIC_ARN''), w')
                               | Some sns_arn \<Rightarrow>
                                   let formatted_deadline =
                                         format_date_for_email e
                                           (dict_get_default task ''deadline'' '''');
                                       msg = expiry_message
                                               (dict_get_default task ''description''
                                                  ''Untitled Task'')
                                               task_id formatted_deadline
                                   in (case dict_index task ''description'' of
                                         Inl err \<Rightarrow> (Some err, w')
                                       | Inr d \<Rightarrow>
                                           (case publish e
                                                   \<lparr>subject = ''Task Expired: '' @ d,
                                                    message = msg\<rparr> w' of
                                              Inl err \<Rightarrow> (Some err, w')
                                            | Inr w'' \<Rightarrow> (None, w'')))))))"

definition expire_and_notify_task ::
  "env \<Rightarrow> string \<Rightarrow> string \<Rightarrow> string \<Rightarrow> string \<Rightarrow> world \<Rightarrow> world" where
  "expire_and_notify_task e task_id user_id pk sk w =
     snd (expire_and_notify_task_body e task_id user_id pk sk w)"

section \<open>Change records\<close>

text \<open>
  A change record of the table's stream, as the router receives it and as the processor
  finds it in the body of a queue message. An image maps attribute names to typed
  values (\<open>{'S': ...}\<close>, \<open>{'N': ...}\<close>, ...); the code only reads string values.
\<close>

datatype attr_value = AttrS string | AttrN string | AttrBOOL bool | AttrNULL

type_synonym image = "(string \<times> attr_value) list"

record stream_data =
  NewImage :: "image option"
  OldImage :: "image option"

record ddb_event =
  eventID :: "string option"
  eventName :: "string option"
  dynamodb :: "stream_data option"

text \<open>\<open>dynamodb_item.get(k, {}).get('S')\<close>\<close>

definition attr_S :: "image \<Rightarrow> string \<Rightarrow> string option" where
  "attr_S dynamodb_item k =
     (case map_of dynamodb_item k of Some (AttrS s) \<Rightarrow> Some s | _ \<Rightarrow> None)"

definition task_keys :: "string list" where
  "task_keys = [''PK'', ''SK'', ''taskId'', ''userId'', ''description'', ''status'', ''deadline'']"

text \<open>
  \<open>get_task_details\<close> builds the seven entries and drops those that are \<open>None\<close>. Called
  with \<open>None\<close> (an image the record does not carry) it raises \<open>AttributeError\<close> at the
  first \<open>.get\<close>.
\<close>

definition get_task_details :: "image option \<Rightarrow> error + pydict" where
  "get_task_details dynamodb_item =
     (case dynamodb_item of
        None \<Rightarrow> Inl AttributeError
      | Some img \<Rightarrow>
          Inr (List.map_filter (\<lambda>k. map_option (Pair k) (attr_S img k)) task_keys))"

section \<open>The trigger registry\<close>

text \<open>
  The registry holds rules by name and, for each rule name, its targets. It is an
  external service; the model keeps what the processor relies on: \<open>put_rule\<close> creates
  or replaces the rule of that name, \<open>put_targets\<close>, \<open>list_targets_by_rule\<close> and
  \<open>remove_targets\<close> answer \<open>ResourceNotFound\<close> for a rule that does not exist, and
  \<open>delete_rule\<close> refuses a rule that still has targets. Every request is recorded in
  \<open>calls\<close>, whether it succeeds or not.
\<close>

record rule =
  ScheduleExpression :: string
  State :: string
  Description :: string

record target =
  Id :: string
  Arn :: string
  Input :: pydict

datatype registry_call =
    PutRule string
  | PutTargets string
  | ListTargetsByRule string
  | RemoveTargets string
  | DeleteRule string

record registry =
  rules :: "(string \<times> rule) list"
  targets :: "(string \<times> target list) list"
  calls :: "registry_call list"

text \<open>
  What the surroundings decide for the stream processor: the configured target of the
  rules, the clock, the library's \<open>datetime.fromisoformat(s).astimezone(timezone.utc)\<close>
  (\<open>None\<close> where it raises \<open>ValueError\<close>), and which requests the registry fails.
\<close>

record datetime =
  year :: nat
  month :: nat
  day :: nat
  hour :: nat
  minute :: nat
  second :: nat
  microsecond :: nat

record sched_env =
  EXPIRY_HANDLER_ARN :: "string option"
  now_utc :: datetime
  fromisoformat_utc :: "string \<Rightarrow> datetime option"
  registry_fails :: "registry_call \<Rightarrow> bool"

fun lex_le :: "nat list \<Rightarrow> nat list \<Rightarrow> bool" where
  "lex_le [] ys = True"
| "lex_le (x # xs) [] = False"
| "lex_le (x # xs) (y # ys) = (x < y \<or> (x = y \<and> lex_le xs ys))"

definition dt_fields :: "datetime \<Rightarrow> nat list" where
  "dt_fields d = [year d, month d, day d, hour d, minute d, second d, microsecond d]"

text \<open>\<open>a <= b\<close> on two UTC datetimes.\<close>

definition dt_le :: "datetime \<Rightarrow> datetime \<Rightarrow> bool" where
  "dt_le a b = lex_le (dt_fields a) (dt_fields b)"

definition note_call :: "registry_call \<Rightarrow> registry \<Rightarrow> registry" where
  "note_call c reg = reg\<lparr>calls := calls reg @ [c]\<rparr>"

definition rule_targets :: "registry \<Rightarrow> string \<Rightarrow> target list" where
  "rule_targets reg name = (case map_of (targets reg) name of None \<Rightarrow> [] | Some ts \<Rightarrow> ts)"

definition put_rule :: "sched_env \<Rightarrow> string \<Rightarrow> rule \<Rightarrow> registry \<Rightarrow> error option \<times> registry" where
  "put_rule e name r reg =
     (let reg' = note_call (PutRule name) reg in
      if registry_fails e (PutRule name) then (Some RegistryFailure, reg')
      else (None, reg'\<lparr>rules := AList.update name r (rules reg')\<rparr>))"

definition put_targets ::
  "sched_env \<Rightarrow> string \<Rightarrow> target list \<Rightarrow> registry \<Rightarrow> error option \<times> registry" where
  "put_targets e name ts reg =
     (let reg' = note_call (PutTargets name) reg in
      if registry_fails e (PutTargets name) then (Some RegistryFailure, reg')
      else if map_of (rules reg') name = None then (Some ResourceNotFound, reg')
      else (None, reg'\<lparr>targets :=
              AList.update name
                (filter (\<lambda>t. Id t \<notin> set (map Id ts)) (rule_targets reg' name) @ ts)
                (targets reg')\<rparr>))"

definition list_targets_by_rule ::
  "sched_env \<Rightarrow> string \<Rightarrow> registry \<Rightarrow> (error + target list) \<times> registry" where
  "list_targets_by_rule e name reg =
     (let reg' = note_call (ListTargetsByRule name) reg in
      if registry_fails e (ListTargetsByRule name) then (Inl RegistryFailure, reg')
      else if map_of (rules reg') name = None then (Inl ResourceNotFound, reg')
      else (Inr (rule_targets reg' name), reg'))"

definition remove_targets ::
  "sched_env \<Rightarrow> string \<Rightarrow> string list \<Rightarrow> registry \<Rightarrow> error option \<times> registry" where
  "remove_targets e name ids reg =
     (let reg' = note_call (RemoveTargets name) reg in
      if registry_fails e (RemoveTargets name) then (Some RegistryFailure, reg')
      else if map_of (rules reg') name = None then (Some ResourceNotFound, reg')
      else (None, reg'\<lparr>targets :=
              AList.update name (filter (\<lambda>t. Id t \<notin> set ids) (rule_targets reg' name))
                (targets reg')\<rparr>))"

definition delete_rule :: "sched_env \<Rightarrow> string \<Rightarrow> registry \<Rightarrow> error option \<times> registry" where
  "delete_rule e name reg =
     (let reg' = note_call (DeleteRule name) reg in
      if registry_fails e (DeleteRule name) then (Some RegistryFailure, reg')
      else if rule_targets reg' name \<noteq> [] then (Some RegistryFailure, reg')
      else (None, reg'\<lparr>rules := AList.delete name (rules reg'),
                       targets := AList.delete name (targets reg')\<rparr>))"

section \<open>The stream processor: \<open>process_stream\<close>\<close>

text \<open>Python's \<open>str\<close> of a non-negative integer, as the f-strings render the date fields.\<close>

fun str_nat :: "nat \<Rightarrow> string" where
  "str_nat n =
     (if n < 10 then [char_of (48 + n)]
      else str_nat (n div 10) @ [char_of (48 + n mod 10)])"

definition RULE_NAME_PREFIX :: string where
  "RULE_NAME_PREFIX = ''TodoAppTaskExpiry''"

definition rule_name_of :: "string \<Rightarrow> string" where
  "rule_name_of task_id = RULE_NAME_PREFIX @ ''-'' @ task_id"

definition cron_expression :: "datetime \<Rightarrow> string" where
  "cron_expression deadline_dt =
     ''cron('' @ str_nat (minute deadline_dt) @ '' '' @ str_nat (hour deadline_dt) @ '' '' @
     str_nat (day deadline_dt) @ '' '' @ str_nat (month deadline_dt) @ '' ? '' @
     str_nat (year deadline_dt) @ '')''"

definition expiry_rule :: "string \<Rightarrow> string \<Rightarrow> datetime \<Rightarrow> rule" where
  "expiry_rule task_id user_id deadline_dt =
     \<lparr>ScheduleExpression = cron_expression deadline_dt,
      State = ''ENABLED'',
      Description = ''Expires task '' @ task_id @ '' for user '' @ user_id @ ''.''\<rparr>"

definition expiry_target :: "string \<Rightarrow> pydict \<Rightarrow> target" where
  "expiry_target arn input_data =
     \<lparr>Id = ''ExpiryLambdaTarget'', Arn = arn, Input = input_data\<rparr>"

text \<open>
  \<open>schedule_expiry_event\<close>: the result is the exception that leaves the function, if any,
  and the registry. The reads of \<open>task[...]\<close> and the parse of the deadline are outside
  its \<open>try\<close> and raise; the two registry requests are inside, and whatever they raise is
  printed and dropped.
\<close>

definition schedule_expiry_event ::
  "sched_env \<Rightarrow> pydict \<Rightarrow> registry \<Rightarrow> error option \<times> registry" where
  "schedule_expiry_event e task reg =
     (if \<not> truthy (EXPIRY_HANDLER_ARN e) then (None, reg)
      else case dict_index task ''deadline'' of
        Inl err \<Rightarrow> (Some err, reg)
      | Inr dl \<Rightarrow>
      (case fromisoformat_utc e dl of
        None \<Rightarrow> (Some ValueError, reg)
      | Some deadline_dt \<Rightarrow>
      (case dict_index task ''taskId'' of
        Inl err \<Rightarrow> (Some err, reg)
      | Inr task_id \<Rightarrow>
          if dt_le deadline_dt (now_utc e) then (None, reg)
          else
      (case dict_index task ''userId'' of
        Inl err \<Rightarrow> (Some err, reg)
      | Inr user_id \<Rightarrow>
      (case dict_index task ''PK'' of
        Inl err \<Rightarrow> (Some err, reg)
      | Inr pk \<Rightarrow>
      (case dict_index task ''SK'' of
        Inl err \<Rightarrow> (Some err, reg)
      | Inr sk \<Rightarrow>
          let rule_name = rule_name_of task_id;
              input_data = [(''taskId'', task_id), (''userId'', user_id),
                            (''pk'', pk), (''sk'', sk)]
          in (case put_rule e rule_name (expiry_rule task_id user_id deadline_dt) reg of
                (Some err, reg1) \<Rightarrow> (None, reg1)
              | (None, reg1) \<Rightarrow>
                  (None, snd (put_targets e rule_name
                                [expiry_target (the (EXPIRY_HANDLER_ARN e)) input_data]
                                reg1)))))))))"

text \<open>
  \<open>cancel_expiry_event\<close>: both handlers of its \<open>try\<close> print at most, so nothing leaves
  the function; the result is the registry.
\<close>

definition cancel_expiry_event :: "sched_env \<Rightarrow> string \<Rightarrow> registry \<Rightarrow> registry" where
  "cancel_expiry_event e task_id reg =
     (let rule_name = rule_name_of task_id in
      case list_targets_by_rule e rule_name reg of
        (Inl err, reg1) \<Rightarrow> reg1
      | (Inr ts, reg1) \<Rightarrow>
          (case (if ts \<noteq> [] then remove_targets e rule_name (map Id ts) reg1
                 else (None, reg1)) of
             (Some err, reg2) \<Rightarrow> reg2
           | (None, reg2) \<Rightarrow> snd (delete_rule e rule_name reg2)))"

text \<open>
  A queue message: \<open>body\<close> is \<open>json.loads(record['body'])\<close>, \<open>None\<close> where the body is
  not JSON and \<open>json.loads\<close> raises.
\<close>

record sqs_record =
  body :: "ddb_event option"

definition startswith :: "string \<Rightarrow> string \<Rightarrow> bool" where
  "startswith s p = (take (length p) s = p)"

text \<open>The task and the old task the handler extracts for the three event names.\<close>

definition extract_tasks :: "string \<Rightarrow> stream_data \<Rightarrow> error + (pydict \<times> pydict option)" where
  "extract_tasks event_name sd =
     (if event_name = ''INSERT'' then
        (case get_task_details (NewImage sd) of
           Inl err \<Rightarrow> Inl err
         | Inr task \<Rightarrow> Inr (task, None))
      else if event_name = ''MODIFY'' then
        (case get_task_details (NewImage sd) of
           Inl err \<Rightarrow> Inl err
         | Inr task \<Rightarrow>
             (case get_task_details (OldImage sd) of
                Inl err \<Rightarrow> Inl err
              | Inr old_task \<Rightarrow> Inr (task, Some old_task)))
      else
        (case get_task_details (OldImage sd) of
           Inl err \<Rightarrow> Inl err
         | Inr task \<Rightarrow> Inr (task, None)))"

text \<open>\<open>old_task.get(k) if old_task else None\<close>\<close>

definition old_get :: "pydict option \<Rightarrow> string \<Rightarrow> string option" where
  "old_get old_task k =
     (case old_task of None \<Rightarrow> None | Some d \<Rightarrow> if d = [] then None else dict_get d k)"

text \<open>The decision of the handler once the task and its identifier are known.\<close>

definition decide ::
  "sched_env \<Rightarrow> string \<Rightarrow> pydict \<Rightarrow> pydict option \<Rightarrow> string \<Rightarrow> registry
     \<Rightarrow> error option \<times> registry" where
  "decide e event_name task old_task task_id reg =
     (if event_name = ''INSERT'' then
        (case dict_index task ''status'' of
           Inl err \<Rightarrow> (Some err, reg)
         | Inr st \<Rightarrow>
             if st = ''Pending'' then schedule_expiry_event e task reg else (None, reg))
      else if event_name = ''MODIFY'' then
        (let new_status = dict_get task ''status'';
             old_status = old_get old_task ''status''
         in if old_status = Some ''Pending''
               \<and> (new_status = Some ''Completed'' \<or> new_status = Some ''Expired'')
            then (None, cancel_expiry_event e task_id reg)
            else if new_status = Some ''Pending'' \<and> old_status = Some ''Pending'' then
              (let old_deadline = old_get old_task ''deadline'';
                   new_deadline = dict_get task ''deadline''
               in if truthy old_deadline \<and> truthy new_deadline \<and> old_deadline \<noteq> new_deadline
                  then schedule_expiry_event e task (cancel_expiry_event e task_id reg)
                  else (None, reg))
            else (None, reg))
      else if event_name = ''REMOVE'' then (None, cancel_expiry_event e task_id reg)
      else (None, reg))"

text \<open>
  The body of the loop for one queue message. \<open>None\<close> is a message the loop has finished
  with (by \<open>continue\<close> or by reaching the end of the body); \<open>Some err\<close> is an exception,
  which the handler prints and raises again.
\<close>

definition process_record :: "sched_env \<Rightarrow> sqs_record \<Rightarrow> registry \<Rightarrow> error option \<times> registry" where
  "process_record e record reg =
     (case body record of
        None \<Rightarrow> (Some JSONDecodeError, reg)
      | Some ddb \<Rightarrow>
          (case eventName ddb of
             None \<Rightarrow> (None, reg)
           | Some event_name \<Rightarrow>
               if event_name \<noteq> ''INSERT'' \<and> event_name \<noteq> ''MODIFY'' \<and> event_name \<noteq> ''REMOVE''
               then (None, reg)
               else
                 (case dynamodb ddb of
                    None \<Rightarrow> (Some (KeyError ''dynamodb''), reg)
                  | Some sd \<Rightarrow>
                      (case extract_tasks event_name sd of
                         Inl err \<Rightarrow> (Some err, reg)
                       | Inr (task, old_task) \<Rightarrow>
                           if task = [] \<or> \<not> startswith (dict_get_default task ''SK'' '''') ''TASK#''
                           then (None, reg)
                           else
                             (case dict_index task ''taskId'' of
                                Inl err \<Rightarrow> (Some err, reg)
                              | Inr task_id \<Rightarrow> decide e event_name task old_task task_id reg)))))"

text \<open>The loop over the messages of a batch stops at the first exception.\<close>

fun process_records :: "sched_env \<Rightarrow> sqs_record list \<Rightarrow> registry \<Rightarrow> error option \<times> registry" where
  "process_records e [] reg = (None, reg)"
| "process_records e (r # rs) reg =
     (case process_record e r reg of
        (Some err, reg') \<Rightarrow> (Some err, reg')
      | (None, reg') \<Rightarrow> process_records e rs reg')"

text \<open>
  The event of an invocation of \<open>process_stream.handler\<close>: the keys the handler probes.
  \<open>toplevel\<close> holds the top-level string entries, read when the payload is the event
  itself.
\<close>

record lambda_event =
  source :: "string option"
  detail :: "pydict option"
  toplevel :: pydict
  Records :: "sqs_record list option"

record system =
  store :: world
  registry_of :: registry

definition process_stream_handler ::
  "env \<Rightarrow> sched_env \<Rightarrow> lambda_event \<Rightarrow> system \<Rightarrow> (error + response) \<times> system" where
  "process_stream_handler se e event sys =
     (if source event = Some ''aws.events'' then
        (let task_data = (case detail event of
                            None \<Rightarrow> toplevel event
                          | Some d \<Rightarrow> if d = [] then toplevel event else d);
             task_id = dict_get task_data ''taskId'';
             user_id = dict_get task_data ''userId'';
             pk = dict_get task_data ''pk'';
             sk = dict_get task_data ''sk''
         in if \<not> all_truthy [task_id, user_id, pk, sk]
            then (Inr (400, ''Missing task data''), sys)
            else (Inr (200, ''Expiry check complete.''),
                  sys\<lparr>store := expire_and_notify_task se (the task_id) (the user_id)
                                  (the pk) (the sk) (store sys)\<rparr>))
      else
        (case Records event of
           None \<Rightarrow> (Inl (KeyError ''Records''), sys)
         | Some records \<Rightarrow>
             (case process_records e records (registry_of sys) of
                (Some err, reg') \<Rightarrow> (Inl err, sys\<lparr>registry_of := reg'\<rparr>)
              | (None, reg') \<Rightarrow>
                  (Inr (200, ''Stream processing complete.''), sys\<lparr>registry_of := reg'\<rparr>))))"

section \<open>The stream router: \<open>stream_router.handler\<close>\<close>

text \<open>
  An entry of the batch sent to the queue. \<open>MessageBody\<close> is \<open>json.dumps(record)\<close>, kept
  here as the record it serialises.
\<close>

record entry =
  EntryId :: string
  MessageBody :: ddb_event
  MessageDeduplicationId :: string
  MessageGroupId :: string

record router_env =
  SQS_QUEUE_URL :: "string option"
  queue_down :: bool
  queue_rejects :: "entry \<Rightarrow> bool"

text \<open>The loop that builds the entries; \<open>record['eventID']\<close> raises when the key is missing.\<close>

fun router_entries :: "ddb_event list \<Rightarrow> error + entry list" where
  "router_entries [] = Inr []"
| "router_entries (record # rest) =
     (case eventID record of
        None \<Rightarrow> Inl (KeyError ''eventID'')
      | Some message_id \<Rightarrow>
          (case router_entries rest of
             Inl err \<Rightarrow> Inl err
           | Inr entries \<Rightarrow>
               Inr (\<lparr>EntryId = message_id,
                     MessageBody = record,
                     MessageDeduplicationId = message_id,
                     MessageGroupId = ''TaskProcessingGroup''\<rparr> # entries)))"

text \<open>
  \<open>send_message_batch\<close> raises when the queue does not answer and when the request holds
  more than ten entries (the limit the source's comment names; the handler sends the
  whole batch in one request); otherwise it reports the entries it rejected and appends
  the others to the queue.
\<close>

definition send_message_batch ::
  "router_env \<Rightarrow> entry list \<Rightarrow> entry list \<Rightarrow> error + (entry list \<times> entry list)" where
  "send_message_batch e entries q =
     (if queue_down e \<or> length entries > 10 then Inl QueueFailure
      else Inr (filter (queue_rejects e) entries,
                q @ filter (\<lambda>x. \<not> queue_rejects e x) entries))"

definition stream_router_handler ::
  "router_env \<Rightarrow> ddb_event list \<Rightarrow> entry list \<Rightarrow> (error + response) \<times> entry list" where
  "stream_router_handler e records q =
     (if \<not> truthy (SQS_QUEUE_URL e) then (Inl ValueError, q)
      else case router_entries records of
        Inl err \<Rightarrow> (Inl err, q)
      | Inr entries \<Rightarrow>
          if entries = [] then (Inr (200, ''No records processed.''), q)
          else (case send_message_batch e entries q of
                  Inl err \<Rightarrow> (Inl err, q)
                | Inr (failed, q') \<Rightarrow>
                    if failed \<noteq> [] then (Inl (Exception ''Failed to send all messages to SQS.''), q')
                    else (Inr (200, ''Messages routed successfully.''), q')))"

text \<open>
  The task a change record belongs to, as the stream processor reads it from the record:
  the \<open>taskId\<close> of the task \<open>process_stream.handler\<close> extracts for the record's event
  name.
\<close>

definition owning_task_id :: "ddb_event \<Rightarrow> string option" where
  "owning_task_id r =
     (case (eventName r, dynamodb r) of
        (Some event_name, Some sd) \<Rightarrow>
          (case extract_tasks event_name sd of
             Inr (task, old_task) \<Rightarrow> dict_get task ''taskId''
           | Inl err \<Rightarrow> None)
      | _ \<Rightarrow> None)"

section \<open>Concrete inputs\<close>

text \<open>One task of one user, its trigger payload, and surroundings in which every service answers.\<close>

definition ex_env :: env where
  "ex_env = \<lparr>store_down = False, sns_down = False,
             sns_topic_arn = Some ''arn:aws:sns:eu-west-1:1:TaskTopic'',
             strftime_email = (\<lambda>s. None),
             other_writers = (\<lambda>t. t)\<rparr>"

definition ex_payload :: pydict where
  "ex_payload = [(''taskId'', ''t1''), (''userId'', ''u1''),
                 (''pk'', ''USER#u1''), (''sk'', ''TASK#t1'')]"

definition ex_item :: "string \<Rightarrow> pydict" where
  "ex_item st = [(''PK'', ''USER#u1''), (''SK'', ''TASK#t1''), (''GSI1PK'', st),
                 (''taskId'', ''t1''), (''userId'', ''u1''), (''description'', ''buy milk''),
                 (''status'', st), (''deadline'', ''2030-01-01T10:00:00+00:00'')]"

definition ex_world :: "string \<Rightarrow> world" where
  "ex_world st = \<lparr>table = [(''USER#u1'', ''TASK#t1'') \<mapsto> ex_item st], published = []\<rparr>"

text \<open>
  The same surroundings with a user who completes the example task, or deletes it,
  between the read and the write of an invocation; and the event of a fired rule that
  carries the payload in its \<open>detail\<close>.
\<close>

definition ex_env_completing :: env where
  "ex_env_completing =
     ex_env\<lparr>other_writers :=
              (\<lambda>t. t((''USER#u1'', ''TASK#t1'') \<mapsto>
                        AList.update ''status'' ''Completed'' (ex_item ''Pending'')))\<rparr>"

definition ex_env_deleting :: env where
  "ex_env_deleting = ex_env\<lparr>other_writers := (\<lambda>t. t((''USER#u1'', ''TASK#t1'') := None))\<rparr>"

definition ex_fired :: lambda_event where
  "ex_fired = \<lparr>source = Some ''aws.events'', detail = Some ex_payload, toplevel = [],
               Records = None\<rparr>"

text \<open>
  The requests an invocation added to the registry's record, and the two commands they
  belong to: a schedule command issues \<open>put_rule\<close> and \<open>put_targets\<close>, a cancel command
  issues \<open>list_targets_by_rule\<close>, \<open>remove_targets\<close> and \<open>delete_rule\<close>. The live triggers of
  a task are the rules registered under the task's rule name.
\<close>

definition new_calls :: "registry \<Rightarrow> registry \<Rightarrow> registry_call list" where
  "new_calls reg reg' = drop (length (calls reg)) (calls reg')"

fun is_schedule_call :: "registry_call \<Rightarrow> bool" where
  "is_schedule_call (PutRule n) = True"
| "is_schedule_call (PutTargets n) = True"
| "is_schedule_call c = False"

fun is_cancel_call :: "registry_call \<Rightarrow> bool" where
  "is_cancel_call (ListTargetsByRule n) = True"
| "is_cancel_call (RemoveTargets n) = True"
| "is_cancel_call (DeleteRule n) = True"
| "is_cancel_call c = False"

definition live_triggers :: "registry \<Rightarrow> string \<Rightarrow> (string \<times> rule) list" where
  "live_triggers reg task_id = filter (\<lambda>p. fst p = rule_name_of task_id) (rules reg)"

text \<open>
  The change records of the example task, a clock at the start of 2026, a parser that
  knows three deadlines, and a registry that holds the task's trigger for the deadline
  in 2030.
\<close>

definition ex_parse :: "string \<Rightarrow> datetime option" where
  "ex_parse s =
     (if s = ''2030-01-01T10:00:00+00:00''
      then Some \<lparr>year = 2030, month = 1, day = 1, hour = 10, minute = 0, second = 0,
                 microsecond = 0\<rparr>
      else if s = ''2031-06-15T08:30:00+00:00''
      then Some \<lparr>year = 2031, month = 6, day = 15, hour = 8, minute = 30, second = 0,
                 microsecond = 0\<rparr>
      else if s = ''2020-01-01T10:00:00+00:00''
      then Some \<lparr>year = 2020, month = 1, day = 1, hour = 10, minute = 0, second = 0,
                 microsecond = 0\<rparr>
      else None)"

definition ex_sched_env :: sched_env where
  "ex_sched_env =
     \<lparr>EXPIRY_HANDLER_ARN = Some ''arn:aws:lambda:eu-west-1:1:function:ExpiryHandlerFunction'',
      now_utc = \<lparr>year = 2026, month = 1, day = 1, hour = 0, minute = 0, second = 0,
                 microsecond = 0\<rparr>,
      fromisoformat_utc = ex_parse,
      registry_fails = (\<lambda>c. False)\<rparr>"

definition ex_image :: "string \<Rightarrow> string \<Rightarrow> image" where
  "ex_image st dl =
     [(''PK'', AttrS ''USER#u1''), (''SK'', AttrS ''TASK#t1''), (''taskId'', AttrS ''t1''),
      (''userId'', AttrS ''u1''), (''description'', AttrS ''buy milk''),
      (''status'', AttrS st), (''deadline'', AttrS dl)]"

definition ex_change :: "string \<Rightarrow> string \<Rightarrow> image option \<Rightarrow> image option \<Rightarrow> ddb_event" where
  "ex_change eid name new old =
     \<lparr>eventID = Some eid, eventName = Some name,
      dynamodb = Some \<lparr>NewImage = new, OldImage = old\<rparr>\<rparr>"

definition ex_record :: "string \<Rightarrow> image option \<Rightarrow> image option \<Rightarrow> sqs_record" where
  "ex_record name new old = \<lparr>body = Some (ex_change ''ev-1'' name new old)\<rparr>"

definition ex_registry_empty :: registry where
  "ex_registry_empty = \<lparr>rules = [], targets = [], calls = []\<rparr>"

definition ex_registry_live :: registry where
  "ex_registry_live =
     \<lparr>rules = [(''TodoAppTaskExpiry-t1'',
                 \<lparr>ScheduleExpression = ''cron(0 10 1 1 ? 2030)'', State = ''ENABLED'',
                  Description = ''Expires task t1 for user u1.''\<rparr>)],
      targets = [(''TodoAppTaskExpiry-t1'',
                  [\<lparr>Id = ''ExpiryLambdaTarget'',
                    Arn = ''arn:aws:lambda:eu-west-1:1:function:ExpiryHandlerFunction'',
                    Input = ex_payload\<rparr>])],
      calls = []\<rparr>"

text \<open>
  A change record of a second task, a router whose queue accepts everything, and the
  event of a batch of queue messages.
\<close>

definition ex_change_t2 :: ddb_event where
  "ex_change_t2 =
     \<lparr>eventID = Some ''ev-2'', eventName = Some ''INSERT'',
      dynamodb = Some \<lparr>NewImage = Some [(''PK'', AttrS ''USER#u1''), (''SK'', AttrS ''TASK#t2''),
                                         (''taskId'', AttrS ''t2''), (''status'', AttrS ''Pending'')],
                       OldImage = None\<rparr>\<rparr>"

definition ex_router_env :: router_env where
  "ex_router_env = \<lparr>SQS_QUEUE_URL = Some ''https://sqs.eu-west-1.amazonaws.com/1/tasks.fifo'',
                    queue_down = False, queue_rejects = (\<lambda>x. False)\<rparr>"

definition ex_event :: "sqs_record list \<Rightarrow> lambda_event" where
  "ex_event rs = \<lparr>source = None, detail = None, toplevel = [], Records = Some rs\<rparr>"

section \<open>Properties of the expiry executor\<close>

lemma dict_get_set_expired_status: "dict_get (set_expired it) ''status'' = Some ''Expired''"
  by (simp add: dict_get_def set_expired_def update_conv')

lemma expiry_handler_invalid:
  "\<not> valid_payload event \<Longrightarrow> expiry_handler e event w = (Inr (400, ''Missing task data''), w)"
  by (simp add: expiry_handler_def valid_payload_def Let_def)

lemma expiry_handler_store_down:
  "valid_payload event \<Longrightarrow> store_down e \<Longrightarrow> expiry_handler e event w = (Inl StoreFailure, w)"
  by (simp add: expiry_handler_def valid_payload_def update_item_if_pending_def Let_def)

lemma expiry_handler_not_pending:
  assumes "valid_payload event" and "\<not> store_down e"
    and "stored_status (table w) (payload_key event) \<noteq> Some ''Pending''"
  shows "expiry_handler e event w = (Inr (200, ''Expiry process completed.''), w)"
  using assms
  by (auto simp: expiry_handler_def valid_payload_def update_item_if_pending_def
        stored_status_def payload_key_def Let_def split: option.splits)

text \<open>The notification the executor builds from the updated item.\<close>

lemma expiry_handler_pending:
  assumes "valid_payload event" and "\<not> store_down e"
    and "table w (payload_key event) = Some it"
    and "dict_get it ''status'' = Some ''Pending''"
  shows "\<exists>n. expiry_handler e event w =
           (if sns_down e
            then (Inl PublishFailure, w\<lparr>table := (table w)(payload_key event \<mapsto> set_expired it)\<rparr>)
            else (Inr (200, ''Expiry process completed.''),
                  w\<lparr>table := (table w)(payload_key event \<mapsto> set_expired it),
                    published := published w @ [n]\<rparr>))"
  using assms
  by (auto simp: expiry_handler_def valid_payload_def update_item_if_pending_def
        payload_key_def publish_def Let_def)

lemma ex_payload_valid: "valid_payload ex_payload"
  by (simp add: valid_payload_def ex_payload_def all_truthy_def truthy_def dict_get_def)

lemma ex_payload_key: "payload_key ex_payload = (''USER#u1'', ''TASK#t1'')"
  by (simp add: payload_key_def ex_payload_def dict_get_def)

lemma ex_world_status: "stored_status (table (ex_world st)) (''USER#u1'', ''TASK#t1'') = Some st"
  by (simp add: stored_status_def ex_world_def ex_item_def dict_get_def)

text \<open>
  C3. When the conditional update fails because the stored status is not Pending, or
  because there is no item under the key at all, the executor returns its normal
  response (status code 200): no exception leaves the handler, nothing is published and
  the table is what it was.
\<close>

theorem expiry_handler_expected_race_is_noop:
  assumes "valid_payload event" and "\<not> store_down e"
    and "stored_status (table w) (payload_key event) \<noteq> Some ''Pending''"
  shows "expiry_handler e event w = (Inr (200, ''Expiry process completed.''), w)"
  using assms by (rule expiry_handler_not_pending)

theorem expiry_handler_expected_race_is_noop_witness:
  "expiry_handler ex_env ex_payload (ex_world ''Completed'')
     = (Inr (200, ''Expiry process completed.''), ex_world ''Completed'')
   \<and> expiry_handler ex_env ex_payload \<lparr>table = Map.empty, published = []\<rparr>
     = (Inr (200, ''Expiry process completed.''), \<lparr>table = Map.empty, published = []\<rparr>)"
proof -
  have e: "\<not> store_down ex_env" by (simp add: ex_env_def)
  have s1: "stored_status (table (ex_world ''Completed'')) (payload_key ex_payload) \<noteq> Some ''Pending''"
    by (simp add: ex_payload_key ex_world_status)
  have s2: "stored_status (table \<lparr>table = Map.empty, published = []\<rparr>) (payload_key ex_payload)
              \<noteq> Some ''Pending''"
    by (simp add: stored_status_def)
  show ?thesis
    using expiry_handler_expected_race_is_noop [OF ex_payload_valid e s1]
      expiry_handler_expected_race_is_noop [OF ex_payload_valid e s2]
    by simp
qed

lemma expiry_handler_table:
  "table (snd (expiry_handler e event w)) =
     (if valid_payload event
      then (case update_item_if_pending e (table w) (payload_key event) of
              Inr (it, t') \<Rightarrow> t'
            | Inl err \<Rightarrow> table w)
      else table w)"
proof (cases "valid_payload event")
  case False
  then show ?thesis by (simp add: expiry_handler_invalid)
next
  case True
  then have v: "all_truthy [dict_get event ''taskId'', dict_get event ''userId'',
                   dict_get event ''pk'', dict_get event ''sk'']"
    by (simp add: valid_payload_def)
  show ?thesis
    using True v
    by (simp add: expiry_handler_def payload_key_def publish_def Let_def
          split: sum.splits error.splits prod.splits)
qed

lemma update_item_if_pending_other:
  "update_item_if_pending e t k = Inr (it, t') \<Longrightarrow>
     t' = t(k \<mapsto> set_expired (the (t k))) \<and> stored_status t k = Some ''Pending''"
  by (auto simp: update_item_if_pending_def stored_status_def split: if_splits option.splits)

text \<open>
  The only write of \<open>expiry_handler.handler\<close> to the table is one conditional update
  under the key of the payload: the table it leaves is the table that update returns, or
  the old table when the update is refused. An item whose stored status is not Pending
  (Completed, Expired, or no item at all) is left as it was, an item that changes is the
  Pending item under the payload's key, and when the table answers that item is Expired
  afterwards.
\<close>

lemma expiry_handler_conditional_update:
  assumes "valid_payload event"
  shows "table (snd (expiry_handler e event w)) =
           (case update_item_if_pending e (table w) (payload_key event) of
              Inr (it, t') \<Rightarrow> t'
            | Inl err \<Rightarrow> table w)
         \<and> (stored_status (table w) k \<noteq> Some ''Pending'' \<longrightarrow>
              table (snd (expiry_handler e event w)) k = table w k)
         \<and> (table (snd (expiry_handler e event w)) k \<noteq> table w k \<longrightarrow>
              k = payload_key event \<and> stored_status (table w) k = Some ''Pending'')
         \<and> (\<not> store_down e \<and> stored_status (table w) (payload_key event) = Some ''Pending'' \<longrightarrow>
              stored_status (table (snd (expiry_handler e event w))) (payload_key event)
                = Some ''Expired'')"
proof -
  let ?t' = "table (snd (expiry_handler e event w))"
  have t: "?t' = (case update_item_if_pending e (table w) (payload_key event) of
                    Inr (it, t') \<Rightarrow> t' | Inl err \<Rightarrow> table w)"
    using assms by (simp add: expiry_handler_table)
  show ?thesis
  proof (cases "update_item_if_pending e (table w) (payload_key event)")
    case (Inl err)
    with t show ?thesis
      by (auto simp: update_item_if_pending_def stored_status_def split: option.splits if_splits)
  next
    case (Inr p)
    obtain it t' where p: "p = (it, t')" by (cases p)
    from Inr p update_item_if_pending_other [of e "table w" "payload_key event" it t']
    have u: "t' = (table w)(payload_key event \<mapsto> set_expired (the (table w (payload_key event))))"
      and s: "stored_status (table w) (payload_key event) = Some ''Pending''"
      by simp_all
    from t Inr p have tt: "?t' = t'" by simp
    show ?thesis
      unfolding tt using t Inr p u s
      by (auto simp: stored_status_def dict_get_set_expired_status)
  qed
qed

text \<open>
  C2. Firing the executor twice with the same payload: once the first firing has got
  its answer from the table (it did not end in a store failure), the stored status under
  the payload's key is not Pending, and the second firing changes neither the table nor
  the list of published notifications, whatever the surroundings of the second firing
  are; when the table answers the second firing, it returns a response and raises
  nothing.
\<close>

theorem expiry_handler_twice_idempotent:
  assumes "fst (expiry_handler e1 event w) \<noteq> Inl StoreFailure"
  shows "snd (expiry_handler e2 event (snd (expiry_handler e1 event w)))
           = snd (expiry_handler e1 event w)
         \<and> (valid_payload event \<longrightarrow>
              stored_status (table (snd (expiry_handler e1 event w))) (payload_key event)
                \<noteq> Some ''Pending'')
         \<and> (\<not> store_down e2 \<longrightarrow>
              (\<exists>resp. fst (expiry_handler e2 event (snd (expiry_handler e1 event w))) = Inr resp))"
proof (cases "valid_payload event")
  case False
  then show ?thesis by (simp add: expiry_handler_invalid)
next
  case True
  have up: "\<not> store_down e1"
    using assms True by (auto simp: expiry_handler_store_down)
  let ?w1 = "snd (expiry_handler e1 event w)"
  have st: "stored_status (table ?w1) (payload_key event) \<noteq> Some ''Pending''"
  proof (cases "stored_status (table w) (payload_key event) = Some ''Pending''")
    case False
    then show ?thesis using True up by (simp add: expiry_handler_not_pending)
  next
    case P: True
    then obtain it where it: "table w (payload_key event) = Some it"
      and pend: "dict_get it ''status'' = Some ''Pending''"
      by (auto simp: stored_status_def split: option.splits)
    from expiry_handler_pending [OF True up it pend]
    have "table ?w1 = (table w)(payload_key event \<mapsto> set_expired it)"
      by (auto split: if_splits)
    then show ?thesis
      by (simp add: stored_status_def dict_get_set_expired_status)
  qed
  have second: "snd (expiry_handler e2 event ?w1) = ?w1"
  proof (cases "store_down e2")
    case True
    then show ?thesis using \<open>valid_payload event\<close> by (simp add: expiry_handler_store_down)
  next
    case False
    then show ?thesis using True st by (simp add: expiry_handler_not_pending)
  qed
  have resp: "\<not> store_down e2 \<longrightarrow> (\<exists>resp. fst (expiry_handler e2 event ?w1) = Inr resp)"
    using True st by (simp add: expiry_handler_not_pending)
  show ?thesis using second st resp by blast
qed

theorem expiry_handler_twice_idempotent_witness:
  "snd (expiry_handler ex_env ex_payload (snd (expiry_handler ex_env ex_payload (ex_world ''Pending''))))
     = snd (expiry_handler ex_env ex_payload (ex_world ''Pending''))
   \<and> length (published (snd (expiry_handler ex_env ex_payload (ex_world ''Pending'')))) = 1
   \<and> stored_status (table (snd (expiry_handler ex_env ex_payload (ex_world ''Pending''))))
        (''USER#u1'', ''TASK#t1'') = Some ''Expired''"
proof -
  have it: "table (ex_world ''Pending'') (payload_key ex_payload) = Some (ex_item ''Pending'')"
    by (simp add: ex_payload_key ex_world_def)
  have pend: "dict_get (ex_item ''Pending'') ''status'' = Some ''Pending''"
    by (simp add: ex_item_def dict_get_def)
  have up: "\<not> store_down ex_env" "\<not> sns_down ex_env" by (simp_all add: ex_env_def)
  from expiry_handler_pending [OF ex_payload_valid up(1) it pend] up(2)
  obtain n where first: "expiry_handler ex_env ex_payload (ex_world ''Pending'') =
      (Inr (200, ''Expiry process completed.''),
       (ex_world ''Pending'')\<lparr>table := (table (ex_world ''Pending''))
            (payload_key ex_payload \<mapsto> set_expired (ex_item ''Pending'')),
          published := published (ex_world ''Pending'') @ [n]\<rparr>)"
    by auto
  then have ok: "fst (expiry_handler ex_env ex_payload (ex_world ''Pending'')) \<noteq> Inl StoreFailure"
    by simp
  have pub: "length (published (snd (expiry_handler ex_env ex_payload (ex_world ''Pending'')))) = 1"
    using first by (simp add: ex_world_def)
  have st: "stored_status (table (snd (expiry_handler ex_env ex_payload (ex_world ''Pending''))))
              (''USER#u1'', ''TASK#t1'') = Some ''Expired''"
    using first by (simp add: stored_status_def ex_payload_key dict_get_set_expired_status)
  show ?thesis
    using expiry_handler_twice_idempotent [OF ok, of ex_env] pub st by blast
qed

text \<open>
  The expiry path of the stream processor reads and then writes without a condition.
  When nobody else writes between its read and its write, it leaves the table the
  conditional update leaves.
\<close>

lemma expire_and_notify_task_table:
  assumes "other_writers e = (\<lambda>t. t)"
  shows "table (expire_and_notify_task e task_id user_id pk sk w) =
     (case update_item_if_pending e (table w) (pk, sk) of
        Inr (it, t') \<Rightarrow> t'
      | Inl err \<Rightarrow> table w)"
  using assms
  by (auto simp: expire_and_notify_task_def expire_and_notify_task_body_def get_item_def
        update_item_def update_item_if_pending_def dict_index_def publish_def Let_def
        dict_get_def
        split: option.splits sum.splits)

text \<open>
  C1. The claim asks that every expiry invocation moves the status to Expired by one
  conditional update, so that an item that is Completed, Expired or deleted is never
  overwritten. \<open>expiry_handler.handler\<close> does so; the expiry path of
  \<open>process_stream.handler\<close> does not, since its write carries no condition. When the user
  completes the example task between the read and the write of that path, the write
  meets a Completed item and sets it to Expired, the notification is sent and the handler
  returns its normal response. When the user deletes the task in between, the write
  creates an Expired item under the deleted key. The conditional update of
  \<open>expiry_handler.handler\<close>, sent to the table with the Completed item, leaves the item
  Completed.
\<close>

theorem expire_and_notify_task_overwrites:
  "stored_status (other_writers ex_env_completing (table (ex_world ''Pending'')))
       (''USER#u1'', ''TASK#t1'') = Some ''Completed''
   \<and> fst (process_stream_handler ex_env_completing ex_sched_env ex_fired
            \<lparr>store = ex_world ''Pending'', registry_of = ex_registry_empty\<rparr>)
       = Inr (200, ''Expiry check complete.'')
   \<and> stored_status
         (table (store (snd (process_stream_handler ex_env_completing ex_sched_env ex_fired
            \<lparr>store = ex_world ''Pending'', registry_of = ex_registry_empty\<rparr>))))
         (''USER#u1'', ''TASK#t1'') = Some ''Expired''
   \<and> map subject
         (published (store (snd (process_stream_handler ex_env_completing ex_sched_env ex_fired
            \<lparr>store = ex_world ''Pending'', registry_of = ex_registry_empty\<rparr>))))
       = [''Task Expired: buy milk'']
   \<and> other_writers ex_env_deleting (table (ex_world ''Pending'')) (''USER#u1'', ''TASK#t1'') = None
   \<and> table (store (snd (process_stream_handler ex_env_deleting ex_sched_env ex_fired
            \<lparr>store = ex_world ''Pending'', registry_of = ex_registry_empty\<rparr>)))
         (''USER#u1'', ''TASK#t1'')
       = Some [(''PK'', ''USER#u1''), (''SK'', ''TASK#t1''), (''status'', ''Expired''),
               (''GSI1PK'', ''Expired'')]
   \<and> stored_status
         (table (snd (expiry_handler ex_env ex_payload
            ((ex_world ''Pending'')\<lparr>table :=
               other_writers ex_env_completing (table (ex_world ''Pending''))\<rparr>))))
         (''USER#u1'', ''TASK#t1'') = Some ''Completed''"
  by code_simp

text \<open>
  When the conditional update of \<open>expiry_handler.handler\<close> succeeds and the publish
  fails, the exception of the publish leaves the handler, the item stays Expired and
  nothing is published.
\<close>

lemma expiry_handler_publish_failure_raises:
  assumes "valid_payload event" and "\<not> store_down e" and "sns_down e"
    and "table w (payload_key event) = Some it"
    and "dict_get it ''status'' = Some ''Pending''"
  shows "expiry_handler e event w =
           (Inl PublishFailure, w\<lparr>table := (table w)(payload_key event \<mapsto> set_expired it)\<rparr>)"
  using expiry_handler_pending [OF assms(1,2,4,5)] assms(3) by simp

text \<open>
  C4. The claim asks that a publish failure after a successful update is only logged:
  the invocation completes and no error reaches the caller. In \<open>expiry_handler.handler\<close>
  the publish is inside the \<open>try\<close> whose last handler prints and raises again: for the
  Pending example task with a topic that does not answer, the handler ends in the
  exception of the publish, with the item Expired and nothing published. The retry the
  exception asks for finds the item Expired, returns its normal response and publishes
  nothing, so the notification is lost either way. The expiry path of
  \<open>process_stream.handler\<close> does what the claim says on the same input: it prints the
  failure, returns its normal response and leaves the item Expired.
\<close>

theorem expiry_handler_publish_failure_propagates:
  "fst (expiry_handler (ex_env\<lparr>sns_down := True\<rparr>) ex_payload (ex_world ''Pending''))
     = Inl PublishFailure
   \<and> stored_status
        (table (snd (expiry_handler (ex_env\<lparr>sns_down := True\<rparr>) ex_payload (ex_world ''Pending''))))
        (''USER#u1'', ''TASK#t1'') = Some ''Expired''
   \<and> published (snd (expiry_handler (ex_env\<lparr>sns_down := True\<rparr>) ex_payload (ex_world ''Pending'')))
     = []
   \<and> fst (expiry_handler ex_env ex_payload
            (snd (expiry_handler (ex_env\<lparr>sns_down := True\<rparr>) ex_payload (ex_world ''Pending''))))
     = Inr (200, ''Expiry process completed.'')
   \<and> published (snd (expiry_handler ex_env ex_payload
            (snd (expiry_handler (ex_env\<lparr>sns_down := True\<rparr>) ex_payload (ex_world ''Pending'')))))
     = []
   \<and> fst (process_stream_handler (ex_env\<lparr>sns_down := True\<rparr>) ex_sched_env ex_fired
            \<lparr>store = ex_world ''Pending'', registry_of = ex_registry_empty\<rparr>)
     = Inr (200, ''Expiry check complete.'')
   \<and> stored_status
        (table (store (snd (process_stream_handler (ex_env\<lparr>sns_down := True\<rparr>) ex_sched_env ex_fired
            \<lparr>store = ex_world ''Pending'', registry_of = ex_registry_empty\<rparr>))))
        (''USER#u1'', ''TASK#t1'') = Some ''Expired''"
  by code_simp

section \<open>Properties of the stream processor\<close>

text \<open>
  What \<open>get_task_details\<close> keeps of an image: the string value of each of the seven keys.
\<close>

lemma map_of_map_filter_keys:
  "map_of (List.map_filter (\<lambda>k. map_option (Pair k) (f k)) ks) k =
     (if k \<in> set ks then f k else None)"
  by (induction ks) (auto split: option.splits)

lemma get_task_details_get:
  "get_task_details (Some img) = Inr task \<Longrightarrow>
     dict_get task k = (if k \<in> set task_keys then attr_S img k else None)"
  by (auto simp: get_task_details_def dict_get_def map_of_map_filter_keys)

lemma task_nonempty: "dict_get task k = Some v \<Longrightarrow> task \<noteq> []"
  by (auto simp: dict_get_def)

text \<open>
  The registry after a cancel command, and the requests the command issues.
\<close>

lemma update_absent_filter:
  "n \<notin> fst ` set al \<Longrightarrow> filter (\<lambda>p. fst p = n) (AList.update n r al) = [(n, r)]"
  by (induction al) auto

lemma delete_absent: "n \<notin> fst ` set (AList.delete n al)"
  by (induction al) auto

lemma filter_own_ids: "filter (\<lambda>t. Id t \<notin> set (map Id ts)) ts = []"
  by (induction ts) (auto simp: filter_empty_conv)

lemma cancel_expiry_event_calls:
  "\<exists>cs. calls (cancel_expiry_event e task_id reg)
          = calls reg @ ListTargetsByRule (rule_name_of task_id) # cs
        \<and> list_all is_cancel_call cs"
  by (auto simp: cancel_expiry_event_def list_targets_by_rule_def remove_targets_def
        delete_rule_def note_call_def Let_def split: prod.splits sum.splits option.splits)

lemma cancel_expiry_event_removes:
  assumes "\<forall>c. \<not> registry_fails e c"
  shows "rule_name_of task_id \<notin> fst ` set (rules (cancel_expiry_event e task_id reg))"
proof (cases "map_of (rules reg) (rule_name_of task_id)")
  case None
  then have "rule_name_of task_id \<notin> fst ` set (rules reg)"
    by (simp add: map_of_eq_None_iff)
  with None show ?thesis
    using assms
    by (simp add: cancel_expiry_event_def list_targets_by_rule_def note_call_def Let_def)
next
  case (Some r)
  show ?thesis
    using assms Some
    by (auto simp: cancel_expiry_event_def list_targets_by_rule_def remove_targets_def
        delete_rule_def note_call_def rule_targets_def Let_def filter_own_ids delete_absent
        update_conv'
        split: prod.splits sum.splits option.splits if_splits)
qed

lemma cancel_call_not_schedule: "is_cancel_call c \<Longrightarrow> \<not> is_schedule_call c"
  by (cases c) simp_all

lemma cancel_calls_no_schedule: "list_all is_cancel_call cs \<Longrightarrow> filter is_schedule_call cs = []"
  by (induction cs) (auto simp: cancel_call_not_schedule)

text \<open>
  A schedule command for a deadline in the future, with the target configured and the
  registry answering: one \<open>put_rule\<close>, one \<open>put_targets\<close>.
\<close>

lemma schedule_expiry_event_future:
  assumes "EXPIRY_HANDLER_ARN e = Some arn" and "arn \<noteq> []"
    and "dict_get task ''deadline'' = Some dl"
    and "fromisoformat_utc e dl = Some deadline_dt"
    and "\<not> dt_le deadline_dt (now_utc e)"
    and "dict_get task ''taskId'' = Some task_id"
    and "dict_get task ''userId'' = Some user_id"
    and "dict_get task ''PK'' = Some pk"
    and "dict_get task ''SK'' = Some sk"
    and "\<forall>c. \<not> registry_fails e c"
  shows "fst (schedule_expiry_event e task reg) = None"
    and "calls (snd (schedule_expiry_event e task reg))
           = calls reg @ [PutRule (rule_name_of task_id), PutTargets (rule_name_of task_id)]"
    and "rules (snd (schedule_expiry_event e task reg))
           = AList.update (rule_name_of task_id) (expiry_rule task_id user_id deadline_dt) (rules reg)"
    and "expiry_target arn [(''taskId'', task_id), (''userId'', user_id), (''pk'', pk), (''sk'', sk)]
           \<in> set (rule_targets (snd (schedule_expiry_event e task reg)) (rule_name_of task_id))"
  using assms
  by (simp_all add: schedule_expiry_event_def dict_index_def truthy_def put_rule_def
        put_targets_def note_call_def rule_targets_def Let_def update_conv')

lemma schedule_expiry_event_past:
  assumes "dict_get task ''deadline'' = Some dl"
    and "fromisoformat_utc e dl = Some deadline_dt"
    and "dt_le deadline_dt (now_utc e)"
    and "dict_get task ''taskId'' = Some task_id"
  shows "schedule_expiry_event e task reg = (None, reg)"
  using assms by (simp add: schedule_expiry_event_def dict_index_def)

text \<open>
  The names of the rules stay distinct through every command, so a task never has two
  rules under its name, whatever the records and the failures of the registry.
\<close>

lemma cancel_expiry_event_distinct:
  "distinct (map fst (rules reg)) \<Longrightarrow>
     distinct (map fst (rules (cancel_expiry_event e task_id reg)))"
  by (auto simp: cancel_expiry_event_def list_targets_by_rule_def remove_targets_def
        delete_rule_def note_call_def Let_def distinct_delete
        split: prod.splits sum.splits option.splits if_splits)

lemma schedule_expiry_event_distinct:
  "distinct (map fst (rules reg)) \<Longrightarrow>
     distinct (map fst (rules (snd (schedule_expiry_event e task reg))))"
  by (auto simp: schedule_expiry_event_def put_rule_def put_targets_def note_call_def Let_def
        dict_index_def distinct_update
        split: prod.splits sum.splits option.splits if_splits)

lemma decide_distinct:
  "distinct (map fst (rules reg)) \<Longrightarrow>
     distinct (map fst (rules (snd (decide e event_name task old_task task_id reg))))"
  by (auto simp: decide_def Let_def cancel_expiry_event_distinct schedule_expiry_event_distinct
        split: sum.splits)

lemma process_record_distinct:
  "distinct (map fst (rules reg)) \<Longrightarrow>
     distinct (map fst (rules (snd (process_record e record reg))))"
  by (auto simp: process_record_def decide_distinct split: option.splits sum.splits prod.splits)

lemma process_records_distinct:
  "distinct (map fst (rules reg)) \<Longrightarrow>
     distinct (map fst (rules (snd (process_records e records reg))))"
proof (induction records arbitrary: reg)
  case Nil
  then show ?case by simp
next
  case (Cons r rs)
  from Cons.prems have d: "distinct (map fst (rules (snd (process_record e r reg))))"
    by (rule process_record_distinct)
  show ?case
  proof (cases "process_record e r reg")
    case (Pair err reg')
    with d Cons.IH [of reg'] show ?thesis by (cases err) simp_all
  qed
qed

lemma distinct_filter_key:
  "distinct (map fst al) \<Longrightarrow> length (filter (\<lambda>p. fst p = n) al) \<le> 1"
proof (induction al)
  case Nil
  then show ?case by simp
next
  case (Cons p al)
  from Cons.prems have "fst p \<notin> fst ` set al" by simp
  then have "\<forall>q \<in> set al. fst q \<noteq> fst p" by (metis imageI)
  then have "fst p = n \<Longrightarrow> filter (\<lambda>q. fst q = n) al = []"
    by (simp add: filter_empty_conv)
  with Cons show ?case by auto
qed

lemma distinct_live_triggers:
  "distinct (map fst (rules reg)) \<Longrightarrow> length (live_triggers reg task_id) \<le> 1"
  unfolding live_triggers_def by (rule distinct_filter_key)

text \<open>
  C9. A schedule action whose deadline is not strictly in the future (the parsed
  deadline is less than or equal to the clock) is skipped: the registry is left as it
  was, no request is issued and no rule is created. Nothing is raised when the task
  carries its identifier, as every task the handler passes does.
\<close>

theorem schedule_expiry_event_skips_past_deadline:
  assumes "dict_get task ''deadline'' = Some dl"
    and "fromisoformat_utc e dl = Some deadline_dt"
    and "dt_le deadline_dt (now_utc e)"
  shows "snd (schedule_expiry_event e task reg) = reg
         \<and> (dict_get task ''taskId'' \<noteq> None \<longrightarrow> fst (schedule_expiry_event e task reg) = None)"
  using assms
  by (auto simp: schedule_expiry_event_def dict_index_def split: option.splits)

theorem schedule_expiry_event_skips_past_deadline_witness:
  "snd (schedule_expiry_event ex_sched_env
          [(''taskId'', ''t1''), (''deadline'', ''2020-01-01T10:00:00+00:00'')] ex_registry_live)
     = ex_registry_live
   \<and> fst (schedule_expiry_event ex_sched_env
          [(''taskId'', ''t1''), (''deadline'', ''2020-01-01T10:00:00+00:00'')] ex_registry_live)
     = None"
proof -
  let ?task = "[(''taskId'', ''t1''), (''deadline'', ''2020-01-01T10:00:00+00:00'')]"
  let ?d = "\<lparr>year = 2020, month = 1, day = 1, hour = 10, minute = 0, second = 0,
             microsecond = 0\<rparr>"
  have h1: "dict_get ?task ''deadline'' = Some ''2020-01-01T10:00:00+00:00''"
    by (simp add: dict_get_def)
  have h2: "fromisoformat_utc ex_sched_env ''2020-01-01T10:00:00+00:00'' = Some ?d"
    by (simp add: ex_sched_env_def ex_parse_def)
  have h3: "dt_le ?d (now_utc ex_sched_env)"
    by (simp add: ex_sched_env_def dt_le_def dt_fields_def)
  have h4: "dict_get ?task ''taskId'' \<noteq> None"
    by (simp add: dict_get_def)
  show ?thesis
    using schedule_expiry_event_skips_past_deadline [OF h1 h2 h3, of ex_registry_live] h4
    by blast
qed

text \<open>
  C7, as the code has it. A Remove record of a task item (sort key with the prefix
  \<open>TASK#\<close>, identifier present) makes the processor issue the cancel command for the
  task's rule, whatever the status in the old image: the requests start with
  \<open>list_targets_by_rule\<close>, all belong to the cancel command, and none is a schedule
  request.
\<close>

theorem process_record_remove_cancels:
  assumes "body record = Some ddb" and "eventName ddb = Some ''REMOVE''"
    and "dynamodb ddb = Some sd" and "OldImage sd = Some old"
    and "attr_S old ''SK'' = Some sk" and "startswith sk ''TASK#''"
    and "attr_S old ''taskId'' = Some task_id"
  shows "process_record e record reg = (None, cancel_expiry_event e task_id reg)
         \<and> (\<exists>cs. new_calls reg (snd (process_record e record reg))
                   = ListTargetsByRule (rule_name_of task_id) # cs
                 \<and> list_all is_cancel_call cs)
         \<and> filter is_schedule_call (new_calls reg (snd (process_record e record reg))) = []"
proof -
  obtain task where task: "get_task_details (Some old) = Inr task"
    by (simp add: get_task_details_def)
  note tg = get_task_details_get [OF task]
  have keys: "dict_get task ''SK'' = Some sk" "dict_get task ''taskId'' = Some task_id"
    using assms by (simp_all add: tg task_keys_def)
  have ne: "task \<noteq> []" using keys task_nonempty by blast
  have pr: "process_record e record reg = (None, cancel_expiry_event e task_id reg)"
    using assms(1-4,6) task keys ne
    by (simp add: process_record_def extract_tasks_def decide_def dict_get_default_def
          dict_index_def)
  obtain cs where cs: "calls (cancel_expiry_event e task_id reg)
                         = calls reg @ ListTargetsByRule (rule_name_of task_id) # cs"
    and cc: "list_all is_cancel_call cs"
    using cancel_expiry_event_calls by blast
  have nc: "new_calls reg (snd (process_record e record reg))
              = ListTargetsByRule (rule_name_of task_id) # cs"
    using pr cs by (simp add: new_calls_def)
  have ns: "filter is_schedule_call (new_calls reg (snd (process_record e record reg))) = []"
    using nc cc by (simp add: cancel_calls_no_schedule)
  show ?thesis using pr nc cc ns by blast
qed

theorem process_record_remove_cancels_witness:
  "process_record ex_sched_env
     (ex_record ''REMOVE'' None (Some (ex_image ''Completed'' ''2030-01-01T10:00:00+00:00'')))
     ex_registry_live
   = (None, cancel_expiry_event ex_sched_env ''t1'' ex_registry_live)"
proof -
  let ?old = "ex_image ''Completed'' ''2030-01-01T10:00:00+00:00''"
  let ?sd = "\<lparr>NewImage = None, OldImage = Some ?old\<rparr>"
  let ?ddb = "ex_change ''ev-1'' ''REMOVE'' None (Some ?old)"
  have hs: "body (ex_record ''REMOVE'' None (Some ?old)) = Some ?ddb"
    "eventName ?ddb = Some ''REMOVE''"
    "dynamodb ?ddb = Some ?sd" "OldImage ?sd = Some ?old"
    "attr_S ?old ''SK'' = Some ''TASK#t1''" "startswith ''TASK#t1'' ''TASK#''"
    "attr_S ?old ''taskId'' = Some ''t1''"
    by (simp_all add: ex_record_def ex_change_def ex_image_def attr_S_def startswith_def)
  show ?thesis
    using process_record_remove_cancels [OF hs, of ex_sched_env ex_registry_live] by blast
qed

text \<open>
  The claim as the specification states it (no cancel command for a Remove record whose
  old image is not Pending) fails for the removal of the Completed example task: the
  processor asks the registry for the targets of the task's rule.
\<close>

theorem process_record_remove_completed_counterexample:
  "new_calls ex_registry_empty
     (snd (process_record ex_sched_env
             (ex_record ''REMOVE'' None (Some (ex_image ''Completed'' ''2030-01-01T10:00:00+00:00'')))
             ex_registry_empty))
   = [ListTargetsByRule ''TodoAppTaskExpiry-t1'']"
  by code_simp

text \<open>
  C8, as the code has it. For a Modify record of a task item whose status is Pending in
  both images and whose deadline differs, with the target configured and the registry
  answering every request, the processor first issues the cancel command and then runs
  the schedule action. When the new deadline is strictly in the future the action
  issues \<open>put_rule\<close> and \<open>put_targets\<close> and leaves exactly one rule under the task's name,
  whose schedule is the cron expression of the new deadline and whose targets include
  the expiry handler with the task's payload. When the new deadline is not in the
  future the action is skipped and no rule is left under the task's name. In neither
  case are there two.
\<close>

theorem process_record_reschedules:
  assumes "body record = Some ddb" and "eventName ddb = Some ''MODIFY''"
    and "dynamodb ddb = Some sd" and "NewImage sd = Some new" and "OldImage sd = Some old"
    and "attr_S old ''status'' = Some ''Pending''" and "attr_S new ''status'' = Some ''Pending''"
    and "attr_S old ''deadline'' = Some old_deadline" and "attr_S new ''deadline'' = Some new_deadline"
    and "old_deadline \<noteq> []" and "new_deadline \<noteq> []" and "old_deadline \<noteq> new_deadline"
    and "attr_S new ''SK'' = Some sk" and "startswith sk ''TASK#''"
    and "attr_S new ''taskId'' = Some task_id" and "attr_S new ''userId'' = Some user_id"
    and "attr_S new ''PK'' = Some pk"
    and "EXPIRY_HANDLER_ARN e = Some arn" and "arn \<noteq> []"
    and "fromisoformat_utc e new_deadline = Some deadline_dt"
    and "\<forall>c. \<not> registry_fails e c"
  shows "fst (process_record e record reg) = None
         \<and> (\<exists>cs. new_calls reg (snd (process_record e record reg))
                  = ListTargetsByRule (rule_name_of task_id) # cs
                    @ (if dt_le deadline_dt (now_utc e) then []
                       else [PutRule (rule_name_of task_id), PutTargets (rule_name_of task_id)])
                \<and> list_all is_cancel_call cs)
         \<and> live_triggers (snd (process_record e record reg)) task_id
             = (if dt_le deadline_dt (now_utc e) then []
                else [(rule_name_of task_id, expiry_rule task_id user_id deadline_dt)])
         \<and> (dt_le deadline_dt (now_utc e)
              \<or> expiry_target arn
                   [(''taskId'', task_id), (''userId'', user_id), (''pk'', pk), (''sk'', sk)]
                 \<in> set (rule_targets (snd (process_record e record reg)) (rule_name_of task_id)))"
proof -
  obtain task where task: "get_task_details (Some new) = Inr task"
    by (simp add: get_task_details_def)
  obtain old_task where old_task: "get_task_details (Some old) = Inr old_task"
    by (simp add: get_task_details_def)
  note tg = get_task_details_get [OF task]
  note og = get_task_details_get [OF old_task]
  have keys: "dict_get task ''SK'' = Some sk" "dict_get task ''taskId'' = Some task_id"
    "dict_get task ''userId'' = Some user_id" "dict_get task ''PK'' = Some pk"
    "dict_get task ''status'' = Some ''Pending''" "dict_get task ''deadline'' = Some new_deadline"
    "dict_get old_task ''status'' = Some ''Pending''"
    "dict_get old_task ''deadline'' = Some old_deadline"
    using assms by (simp_all add: tg og task_keys_def)
  have ne: "task \<noteq> []" "old_task \<noteq> []"
    using keys task_nonempty by blast+
  let ?reg1 = "cancel_expiry_event e task_id reg"
  let ?n = "rule_name_of task_id"
  have pr: "process_record e record reg = schedule_expiry_event e task ?reg1"
    using assms(1-5,10-12,14) task old_task keys ne
    by (simp add: process_record_def extract_tasks_def decide_def dict_get_default_def
          dict_index_def old_get_def truthy_def Let_def)
  obtain cs where cs: "calls ?reg1 = calls reg @ ListTargetsByRule ?n # cs"
    and cc: "list_all is_cancel_call cs"
    using cancel_expiry_event_calls by blast
  have absent: "?n \<notin> fst ` set (rules ?reg1)"
    using assms(21) by (rule cancel_expiry_event_removes)
  show ?thesis
  proof (cases "dt_le deadline_dt (now_utc e)")
    case True
    have sk: "process_record e record reg = (None, ?reg1)"
      using pr schedule_expiry_event_past [OF keys(6) assms(20) True keys(2)] by simp
    have none: "filter (\<lambda>p. fst p = ?n) (rules ?reg1) = []"
      using absent by (force simp: filter_empty_conv)
    have c2: "new_calls reg ?reg1 = ListTargetsByRule ?n # cs @ []"
      using cs by (simp add: new_calls_def)
    show ?thesis
      using True sk none c2 cc by (auto simp: live_triggers_def)
  next
    case False
    note sch = schedule_expiry_event_future
                 [OF assms(18,19) keys(6) assms(20) False keys(2,3,4,1) assms(21), of ?reg1]
    have c1: "fst (process_record e record reg) = None"
      using pr sch(1) by simp
    have c2: "new_calls reg (snd (process_record e record reg))
                = ListTargetsByRule ?n # cs @ [PutRule ?n, PutTargets ?n]"
      using pr sch(2) cs by (simp add: new_calls_def)
    have c3: "live_triggers (snd (process_record e record reg)) task_id
                = [(?n, expiry_rule task_id user_id deadline_dt)]"
      using pr sch(3) absent by (simp add: live_triggers_def update_absent_filter)
    have c4: "expiry_target arn
                [(''taskId'', task_id), (''userId'', user_id), (''pk'', pk), (''sk'', sk)]
               \<in> set (rule_targets (snd (process_record e record reg)) ?n)"
      using pr sch(4) by simp
    show ?thesis using False c1 c2 cc c3 c4 by auto
  qed
qed

theorem process_record_reschedules_witness:
  "fst (process_record ex_sched_env
          (ex_record ''MODIFY'' (Some (ex_image ''Pending'' ''2031-06-15T08:30:00+00:00''))
             (Some (ex_image ''Pending'' ''2030-01-01T10:00:00+00:00'')))
          ex_registry_live) = None
   \<and> live_triggers
        (snd (process_record ex_sched_env
          (ex_record ''MODIFY'' (Some (ex_image ''Pending'' ''2031-06-15T08:30:00+00:00''))
             (Some (ex_image ''Pending'' ''2030-01-01T10:00:00+00:00'')))
          ex_registry_live)) ''t1''
      = [(rule_name_of ''t1'',
          expiry_rule ''t1'' ''u1''
            \<lparr>year = 2031, month = 6, day = 15, hour = 8, minute = 30, second = 0,
             microsecond = 0\<rparr>)]"
proof -
  let ?new = "ex_image ''Pending'' ''2031-06-15T08:30:00+00:00''"
  let ?old = "ex_image ''Pending'' ''2030-01-01T10:00:00+00:00''"
  let ?sd = "\<lparr>NewImage = Some ?new, OldImage = Some ?old\<rparr>"
  let ?ddb = "ex_change ''ev-1'' ''MODIFY'' (Some ?new) (Some ?old)"
  let ?d = "\<lparr>year = 2031, month = 6, day = 15, hour = 8, minute = 30, second = 0,
             microsecond = 0\<rparr>"
  have hs: "body (ex_record ''MODIFY'' (Some ?new) (Some ?old)) = Some ?ddb"
    "eventName ?ddb = Some ''MODIFY''"
    "dynamodb ?ddb = Some ?sd" "NewImage ?sd = Some ?new" "OldImage ?sd = Some ?old"
    "attr_S ?old ''status'' = Some ''Pending''" "attr_S ?new ''status'' = Some ''Pending''"
    "attr_S ?old ''deadline'' = Some ''2030-01-01T10:00:00+00:00''"
    "attr_S ?new ''deadline'' = Some ''2031-06-15T08:30:00+00:00''"
    "''2030-01-01T10:00:00+00:00'' \<noteq> []" "''2031-06-15T08:30:00+00:00'' \<noteq> []"
    "''2030-01-01T10:00:00+00:00'' \<noteq> ''2031-06-15T08:30:00+00:00''"
    "attr_S ?new ''SK'' = Some ''TASK#t1''" "startswith ''TASK#t1'' ''TASK#''"
    "attr_S ?new ''taskId'' = Some ''t1''" "attr_S ?new ''userId'' = Some ''u1''"
    "attr_S ?new ''PK'' = Some ''USER#u1''"
    "EXPIRY_HANDLER_ARN ex_sched_env
       = Some ''arn:aws:lambda:eu-west-1:1:function:ExpiryHandlerFunction''"
    "''arn:aws:lambda:eu-west-1:1:function:ExpiryHandlerFunction'' \<noteq> []"
    "fromisoformat_utc ex_sched_env ''2031-06-15T08:30:00+00:00'' = Some ?d"
    "\<forall>c. \<not> registry_fails ex_sched_env c"
    by (simp_all add: ex_record_def ex_change_def ex_image_def attr_S_def startswith_def
          ex_sched_env_def ex_parse_def)
  have future: "\<not> dt_le ?d (now_utc ex_sched_env)"
    by (simp add: ex_sched_env_def dt_le_def dt_fields_def)
  show ?thesis
    using process_record_reschedules [OF hs, of ex_registry_live] future by auto
qed

text \<open>
  The claim as the specification states it (every such Modify record leaves exactly one
  live trigger for the new deadline) fails when the new deadline is already past: the
  processor cancels the trigger of the old deadline, the schedule action is skipped, and
  the task is left with no trigger.
\<close>

theorem process_record_reschedule_past_counterexample:
  "fst (process_record ex_sched_env
          (ex_record ''MODIFY'' (Some (ex_image ''Pending'' ''2020-01-01T10:00:00+00:00''))
             (Some (ex_image ''Pending'' ''2030-01-01T10:00:00+00:00'')))
          ex_registry_live) = None
   \<and> live_triggers
        (snd (process_record ex_sched_env
          (ex_record ''MODIFY'' (Some (ex_image ''Pending'' ''2020-01-01T10:00:00+00:00''))
             (Some (ex_image ''Pending'' ''2030-01-01T10:00:00+00:00'')))
          ex_registry_live)) ''t1'' = []
   \<and> new_calls ex_registry_live
        (snd (process_record ex_sched_env
          (ex_record ''MODIFY'' (Some (ex_image ''Pending'' ''2020-01-01T10:00:00+00:00''))
             (Some (ex_image ''Pending'' ''2030-01-01T10:00:00+00:00'')))
          ex_registry_live))
      = [ListTargetsByRule ''TodoAppTaskExpiry-t1'', RemoveTargets ''TodoAppTaskExpiry-t1'',
         DeleteRule ''TodoAppTaskExpiry-t1'']"
  by code_simp

text \<open>
  An exception that leaves the body of the loop ends the invocation: the handler prints
  it and raises it again, and the later messages of the batch are not processed.
\<close>

lemma process_stream_handler_reraises:
  assumes "source event \<noteq> Some ''aws.events''" and "Records event = Some records"
    and "process_records e records (registry_of sys) = (Some err, reg')"
  shows "process_stream_handler se e event sys = (Inl err, sys\<lparr>registry_of := reg'\<rparr>)"
  using assms by (simp add: process_stream_handler_def)

text \<open>
  C5. The claim asks that a failure of the registry during a schedule or cancel command
  leaves the record unacknowledged. In the code the failure is caught inside
  \<open>schedule_expiry_event\<close> and \<open>cancel_expiry_event\<close> and printed. With a registry that
  fails every request, the handler returns its normal response, so the batch is
  acknowledged: for the Insert record of the Pending example task no rule exists
  afterwards, and for the Modify record that completes the task its rule is still
  registered.
\<close>

theorem process_stream_handler_swallows_registry_failure:
  "fst (process_stream_handler ex_env (ex_sched_env\<lparr>registry_fails := (\<lambda>c. True)\<rparr>)
          (ex_event [ex_record ''INSERT'' (Some (ex_image ''Pending'' ''2030-01-01T10:00:00+00:00'')) None])
          \<lparr>store = ex_world ''Pending'', registry_of = ex_registry_empty\<rparr>)
     = Inr (200, ''Stream processing complete.'')
   \<and> registry_of (snd (process_stream_handler ex_env (ex_sched_env\<lparr>registry_fails := (\<lambda>c. True)\<rparr>)
          (ex_event [ex_record ''INSERT'' (Some (ex_image ''Pending'' ''2030-01-01T10:00:00+00:00'')) None])
          \<lparr>store = ex_world ''Pending'', registry_of = ex_registry_empty\<rparr>))
     = \<lparr>rules = [], targets = [], calls = [PutRule ''TodoAppTaskExpiry-t1'']\<rparr>
   \<and> fst (process_stream_handler ex_env (ex_sched_env\<lparr>registry_fails := (\<lambda>c. True)\<rparr>)
          (ex_event [ex_record ''MODIFY''
                       (Some (ex_image ''Completed'' ''2030-01-01T10:00:00+00:00''))
                       (Some (ex_image ''Pending'' ''2030-01-01T10:00:00+00:00''))])
          \<lparr>store = ex_world ''Completed'', registry_of = ex_registry_live\<rparr>)
     = Inr (200, ''Stream processing complete.'')
   \<and> registry_of (snd (process_stream_handler ex_env (ex_sched_env\<lparr>registry_fails := (\<lambda>c. True)\<rparr>)
          (ex_event [ex_record ''MODIFY''
                       (Some (ex_image ''Completed'' ''2030-01-01T10:00:00+00:00''))
                       (Some (ex_image ''Pending'' ''2030-01-01T10:00:00+00:00''))])
          \<lparr>store = ex_world ''Completed'', registry_of = ex_registry_live\<rparr>))
     = ex_registry_live\<lparr>calls := [ListTargetsByRule ''TodoAppTaskExpiry-t1'']\<rparr>"
  by code_simp

text \<open>
  A record whose images are present and whose sort key does not begin with \<open>TASK#\<close> is
  skipped: no request is issued and nothing is raised.
\<close>

lemma process_record_skips_non_task:
  assumes "body record = Some ddb" and "eventName ddb = Some event_name"
    and "dynamodb ddb = Some sd"
    and "extract_tasks event_name sd = Inr (task, old_task)"
    and "\<not> startswith (dict_get_default task ''SK'' '''') ''TASK#''"
  shows "process_record e record reg = (None, reg)"
  using assms by (simp add: process_record_def)

text \<open>
  C10. The claim asks that a record whose relevant image is absent is skipped without
  failing the record. In the code \<open>get_task_details\<close> is called on the absent image
  before the check that would skip it, and raises: for a Remove record without an old
  image the handler ends in \<open>AttributeError\<close>.
\<close>

theorem process_stream_handler_absent_image_raises:
  "fst (process_stream_handler ex_env ex_sched_env (ex_event [ex_record ''REMOVE'' None None])
          \<lparr>store = ex_world ''Pending'', registry_of = ex_registry_live\<rparr>)
   = Inl AttributeError"
  by code_simp

section \<open>Properties of the stream router\<close>

lemma router_entries_keys:
  "router_entries records = Inr entries \<Longrightarrow>
     list_all2 (\<lambda>r en. eventID r = Some (MessageDeduplicationId en)
                  \<and> EntryId en = MessageDeduplicationId en
                  \<and> MessageBody en = r
                  \<and> MessageGroupId en = ''TaskProcessingGroup'') records entries"
  by (induction records arbitrary: entries) (auto split: option.splits sum.splits)

text \<open>
  C6, as the code has it. When the router returns its response, the queue has received
  one entry for each record of the batch, in order; the entry carries the record, the
  record's \<open>eventID\<close> as its identifier and as its deduplication key, and the constant
  ordering-group key \<open>TaskProcessingGroup\<close>, the same for every record of every task.
\<close>

theorem stream_router_handler_enqueues:
  assumes "stream_router_handler e records q = (Inr resp, q')"
  shows "\<exists>entries. q' = q @ entries
           \<and> list_all2 (\<lambda>r en. eventID r = Some (MessageDeduplicationId en)
                  \<and> EntryId en = MessageDeduplicationId en
                  \<and> MessageBody en = r
                  \<and> MessageGroupId en = ''TaskProcessingGroup'') records entries"
proof -
  from assms obtain entries where en: "router_entries records = Inr entries"
    by (auto simp: stream_router_handler_def split: if_splits sum.splits)
  have q: "q' = q @ entries"
  proof (cases "entries = []")
    case True
    with assms en show ?thesis by (simp add: stream_router_handler_def split: if_splits)
  next
    case False
    with assms en have "filter (queue_rejects e) entries = []"
      and "q' = q @ filter (\<lambda>x. \<not> queue_rejects e x) entries"
      by (auto simp: stream_router_handler_def send_message_batch_def split: if_splits)
    then show ?thesis by (simp add: filter_empty_conv)
  qed
  show ?thesis using q router_entries_keys [OF en] by blast
qed

theorem stream_router_handler_enqueues_witness:
  "\<exists>entries. snd (stream_router_handler ex_router_env
                    [ex_change ''ev-1'' ''INSERT''
                       (Some (ex_image ''Pending'' ''2030-01-01T10:00:00+00:00'')) None,
                     ex_change_t2] []) = [] @ entries
      \<and> list_all2 (\<lambda>r en. eventID r = Some (MessageDeduplicationId en)
                  \<and> EntryId en = MessageDeduplicationId en
                  \<and> MessageBody en = r
                  \<and> MessageGroupId en = ''TaskProcessingGroup'')
           [ex_change ''ev-1'' ''INSERT''
              (Some (ex_image ''Pending'' ''2030-01-01T10:00:00+00:00'')) None,
            ex_change_t2] entries"
proof -
  let ?rs = "[ex_change ''ev-1'' ''INSERT''
                (Some (ex_image ''Pending'' ''2030-01-01T10:00:00+00:00'')) None, ex_change_t2]"
  have "fst (stream_router_handler ex_router_env ?rs []) = Inr (200, ''Messages routed successfully.'')"
    by code_simp
  then have h: "stream_router_handler ex_router_env ?rs []
                  = (Inr (200, ''Messages routed successfully.''),
                     snd (stream_router_handler ex_router_env ?rs []))"
    by (simp add: prod_eq_iff)
  show ?thesis using stream_router_handler_enqueues [OF h] .
qed

text \<open>
  The claim as the specification states it (the ordering-group key is the identifier of
  the owning task) fails for a batch with one record of task \<open>t1\<close> and one of task
  \<open>t2\<close>: both entries are in the group \<open>TaskProcessingGroup\<close>.
\<close>

theorem router_group_counterexample:
  "map_sum id (map MessageGroupId)
     (router_entries [ex_change ''ev-1'' ''INSERT''
                        (Some (ex_image ''Pending'' ''2030-01-01T10:00:00+00:00'')) None,
                      ex_change_t2])
     = Inr [''TaskProcessingGroup'', ''TaskProcessingGroup'']
   \<and> map owning_task_id [ex_change ''ev-1'' ''INSERT''
                        (Some (ex_image ''Pending'' ''2030-01-01T10:00:00+00:00'')) None,
                      ex_change_t2]
     = [Some ''t1'', Some ''t2'']"
  by code_simp

end
